theory Spec2Isabelle
  imports Main
begin

section \<open>The serial heap: data model\<close>

text \<open>
  A shallow embedding of \<^verbatim>\<open>src/hotspot/share/gc/serial/serialHeap.cpp\<close>.
  C++ objects that are created with \<^verbatim>\<open>new\<close> and shared through pointers live in
  explicit stores (a list per class; a pointer is the index of the object, and a pointer
  that may be \<^verbatim>\<open>nullptr\<close> is an option). Everything else the functions of the file
  read or write is a field of the record \<open>vm\<close>, which the functions pass along.
  Addresses and sizes are counted in heap words and are natural numbers: the only
  arithmetic on them is a comparison of a size with a difference of two addresses.
\<close>

type_synonym HeapWord = nat
type_synonym JavaThread = nat
type_synonym oop = nat
type_synonym GCMemoryManager_ptr = nat
type_synonym MemoryPool_ptr = "nat option"

text \<open>
  Modelled from the spec: \<^verbatim>\<open>MemRegion\<close> (memRegion.hpp is not part of the sources at
  hand), a range of addresses given by its start and its size in words. A region lies
  fully within another when it starts no earlier and ends no later.
\<close>

record MemRegion =
  mr_start :: HeapWord
  mr_word_size :: nat

definition mr_end :: "MemRegion \<Rightarrow> HeapWord" where
  "mr_end r = mr_start r + mr_word_size r"

definition MemRegion_contains :: "MemRegion \<Rightarrow> MemRegion \<Rightarrow> bool" where
  "MemRegion_contains r r2 = (mr_start r \<le> mr_start r2 \<and> mr_end r2 \<le> mr_end r)"

text \<open>
  Modelled from the spec: a generation space (the space classes are not part of the
  sources at hand) has a base address, a current allocation pointer and a committed
  capacity. Allocation moves \<open>space_top\<close> from \<open>space_bottom\<close> towards \<open>space_end\<close>;
  the used extent lies between \<open>space_bottom\<close> and \<open>space_top\<close>.
\<close>

record ContiguousSpace =
  space_bottom :: HeapWord
  space_top :: HeapWord
  space_end :: HeapWord

definition used_region :: "ContiguousSpace \<Rightarrow> MemRegion" where
  "used_region s = \<lparr>mr_start = space_bottom s, mr_word_size = space_top s - space_bottom s\<rparr>"

definition free_words :: "ContiguousSpace \<Rightarrow> nat" where
  "free_words s = space_end s - space_top s"

record DefNewGeneration =
  eden :: ContiguousSpace
  from_space :: ContiguousSpace
  to_space :: ContiguousSpace
  max_eden_size :: nat
  max_survivor_size :: nat
  young_gc_manager :: "GCMemoryManager_ptr option"

text \<open>
  The old generation. \<open>younger_refs\<close> is the table of recorded old-to-young reference
  slots, \<open>old_slots\<close> all reference slots of the generation, \<open>archive_regions\<close> the regions
  the allocator has been told are permanently occupied.
\<close>

record TenuredGeneration =
  the_space :: ContiguousSpace
  max_capacity :: nat
  old_slots :: "nat list"
  younger_refs :: "nat list"
  archive_regions :: "MemRegion list"
  old_gc_manager :: "GCMemoryManager_ptr option"

text \<open>The three pool classes constructed by the heap, and the manager class.\<close>

datatype pool_class = ContiguousSpacePool | SurvivorContiguousSpacePool | GenerationPool

record MemoryPool =
  pool_class :: pool_class
  pool_name :: string
  pool_max_size :: nat
  support_usage_threshold :: bool

record GCMemoryManager =
  manager_name :: string
  gc_end_message :: string
  pools :: "MemoryPool_ptr list"

text \<open>Closures are opaque to this file; applying one is recorded as an event.\<close>

type_synonym OopIterateClosure = nat
type_synonym CLDClosure = nat

datatype FixRelocations = NoFixRelocations | FixRelocations

record MarkingCodeBlobClosure =
  cl :: OopIterateClosure
  fix_relocations :: FixRelocations
  keepalive_nmethods :: bool

datatype ScanningOption = SO_None | SO_AllCodeCache | SO_ScavengeCodeCache

datatype event =
    Do_oop OopIterateClosure nat
  | Do_cld CLDClosure nat
  | Do_code_blob MarkingCodeBlobClosure nat
  | Mutex_lock JavaThread
  | Mutex_unlock JavaThread
  | Old_allocate nat "HeapWord option"

datatype gate = Idle | SynchronizingWorker | PausedWithWorkerParked

record vm =
  managers :: "GCMemoryManager list"
  mpools :: "MemoryPool list"
  young_gen :: DefNewGeneration
  old_gen :: TenuredGeneration
  thread_roots :: "nat list"
  cld_nodes :: "(nat \<times> bool) list"
  code_blobs :: "nat list"
  UseStringDeduplication :: bool
  ASSERT :: bool
  sts :: gate
  Heap_lock :: "JavaThread option"
  jni_lock_count :: int
  collection_in_progress :: bool
  trace :: "event list"

text \<open>The fields that \<^verbatim>\<open>SerialHeap\<close> adds to its base class.\<close>

record SerialHeap =
  young_manager :: GCMemoryManager_ptr
  old_manager :: GCMemoryManager_ptr
  eden_pool :: MemoryPool_ptr
  survivor_pool :: MemoryPool_ptr
  old_pool :: MemoryPool_ptr

datatype error = ArchiveRegionViolation

text \<open>
  How a call ends: it returns a value, it blocks (the caller waits, nothing has
  changed yet), or the VM stops with a fatal error. Each carries the state at that point.
\<close>

datatype 'a outcome = Returned 'a vm | Blocked vm | Fatal error vm

section \<open>Construction and serviceability\<close>

text \<open>
  Modelled from the spec: the constructor of \<^verbatim>\<open>GCMemoryManager\<close> (memoryManager.cpp is
  not part of the sources at hand). A manager group has a name, a trigger description
  and an ordered collection of pool references, empty until pools are attached.
\<close>

definition new_GCMemoryManager :: "string \<Rightarrow> string \<Rightarrow> vm \<Rightarrow> GCMemoryManager_ptr \<times> vm" where
  "new_GCMemoryManager n msg w =
     (length (managers w),
      w\<lparr>managers := managers w @ [\<lparr>manager_name = n, gc_end_message = msg, pools = []\<rparr>]\<rparr>)"

text \<open>
  Modelled from the spec: \<^verbatim>\<open>GCMemoryManager::add_pool\<close>, which attaches a pool reference
  at the end of the manager's ordered pool collection. A pointer to no manager is
  undefined behaviour in C++; the model leaves the state alone there.
\<close>

definition add_pool :: "GCMemoryManager_ptr \<Rightarrow> MemoryPool_ptr \<Rightarrow> vm \<Rightarrow> vm" where
  "add_pool m p w =
     (if m < length (managers w)
      then w\<lparr>managers := (managers w)[m := (managers w ! m)\<lparr>pools := pools (managers w ! m) @ [p]\<rparr>]\<rparr>
      else w)"

text \<open>
  Modelled from the spec: the constructors of the three pool classes (genMemoryPools.cpp
  is not part of the sources at hand). A pool has a name, a maximum size and a
  usage-threshold support flag, all fixed at construction; the new pool is placed in the
  store. The tenured pool takes its maximum from the old generation.
\<close>

definition new_MemoryPool :: "MemoryPool \<Rightarrow> vm \<Rightarrow> MemoryPool_ptr \<times> vm" where
  "new_MemoryPool p w = (Some (length (mpools w)), w\<lparr>mpools := mpools w @ [p]\<rparr>)"

definition new_ContiguousSpacePool :: "string \<Rightarrow> nat \<Rightarrow> bool \<Rightarrow> vm \<Rightarrow> MemoryPool_ptr \<times> vm" where
  "new_ContiguousSpacePool n max_size support =
     new_MemoryPool \<lparr>pool_class = ContiguousSpacePool, pool_name = n,
                     pool_max_size = max_size, support_usage_threshold = support\<rparr>"

definition new_SurvivorContiguousSpacePool :: "string \<Rightarrow> nat \<Rightarrow> bool \<Rightarrow> vm \<Rightarrow> MemoryPool_ptr \<times> vm" where
  "new_SurvivorContiguousSpacePool n max_size support =
     new_MemoryPool \<lparr>pool_class = SurvivorContiguousSpacePool, pool_name = n,
                     pool_max_size = max_size, support_usage_threshold = support\<rparr>"

definition new_GenerationPool :: "string \<Rightarrow> bool \<Rightarrow> vm \<Rightarrow> MemoryPool_ptr \<times> vm" where
  "new_GenerationPool n support w =
     new_MemoryPool \<lparr>pool_class = GenerationPool, pool_name = n,
                     pool_max_size = max_capacity (old_gen w), support_usage_threshold = support\<rparr> w"

text \<open>
  \<^verbatim>\<open>Generation::set_gc_manager\<close> (not part of the sources at hand) is taken to be the
  setter its name says: the generation remembers the manager.
\<close>

definition young_set_gc_manager :: "GCMemoryManager_ptr \<Rightarrow> vm \<Rightarrow> vm" where
  "young_set_gc_manager m w = w\<lparr>young_gen := (young_gen w)\<lparr>young_gc_manager := Some m\<rparr>\<rparr>"

definition old_set_gc_manager :: "GCMemoryManager_ptr \<Rightarrow> vm \<Rightarrow> vm" where
  "old_set_gc_manager m w = w\<lparr>old_gen := (old_gen w)\<lparr>old_gc_manager := Some m\<rparr>\<rparr>"

text \<open>\<^verbatim>\<open>SerialHeap::SerialHeap()\<close>: the three pool pointers are null, the managers are new.\<close>

definition SerialHeap_ctor :: "vm \<Rightarrow> SerialHeap \<times> vm" where
  "SerialHeap_ctor w =
     (let (ym, w1) = new_GCMemoryManager ''Copy'' ''end of minor GC'' w;
          (om, w2) = new_GCMemoryManager ''MarkSweepCompact'' ''end of major GC'' w1
      in (\<lparr>young_manager = ym, old_manager = om,
           eden_pool = None, survivor_pool = None, old_pool = None\<rparr>, w2))"

text \<open>\<^verbatim>\<open>SerialHeap::initialize_serviceability()\<close>.\<close>

definition initialize_serviceability :: "SerialHeap \<Rightarrow> vm \<Rightarrow> SerialHeap \<times> vm" where
  "initialize_serviceability h w =
     (let (e, w1) = new_ContiguousSpacePool ''Eden Space'' (max_eden_size (young_gen w)) False w;
          (s, w2) = new_SurvivorContiguousSpacePool ''Survivor Space''
                      (max_survivor_size (young_gen w1)) False w1;
          (t, w3) = new_GenerationPool ''Tenured Gen'' True w2;
          h' = h\<lparr>eden_pool := e, survivor_pool := s, old_pool := t\<rparr>;
          w4 = add_pool (young_manager h') (eden_pool h') w3;
          w5 = add_pool (young_manager h') (survivor_pool h') w4;
          w6 = young_set_gc_manager (young_manager h') w5;
          w7 = add_pool (old_manager h') (eden_pool h') w6;
          w8 = add_pool (old_manager h') (survivor_pool h') w7;
          w9 = add_pool (old_manager h') (old_pool h') w8;
          w10 = old_set_gc_manager (old_manager h') w9
      in (h', w10))"

definition memory_managers :: "SerialHeap \<Rightarrow> GCMemoryManager_ptr list" where
  "memory_managers h = [] @ [young_manager h] @ [old_manager h]"

definition memory_pools :: "SerialHeap \<Rightarrow> MemoryPool_ptr list" where
  "memory_pools h = [] @ [eden_pool h] @ [survivor_pool h] @ [old_pool h]"

text \<open>The pools a manager owns, read through its pointer.\<close>

definition manager_pools :: "vm \<Rightarrow> GCMemoryManager_ptr \<Rightarrow> MemoryPool_ptr list" where
  "manager_pools w m = pools (managers w ! m)"

text \<open>Construction followed by the deferred initialization.\<close>

definition constructed :: "vm \<Rightarrow> SerialHeap \<times> vm" where
  "constructed w = (let (h, w1) = SerialHeap_ctor w in initialize_serviceability h w1)"

section \<open>Root scanning for a minor collection\<close>

text \<open>
  Modelled from the spec: \<^verbatim>\<open>GenCollectedHeap::process_roots\<close> (genCollectedHeap.cpp is
  not part of the sources at hand). The root scan feeds every thread's references to the
  root visitor, every class-loader-data node to the class-loader visitor (the strong one
  for a strong node, the weak one otherwise), and, unless the scanning option says
  otherwise, every compiled-code object to the code visitor. Visiting is synchronous.
  The spec leaves the order among the roots open; the order below is one such order.
  What a visitor does to the heap is outside this file, so a visit is an event of the trace.
\<close>

definition root_events ::
  "ScanningOption \<Rightarrow> OopIterateClosure \<Rightarrow> CLDClosure \<Rightarrow> CLDClosure \<Rightarrow> MarkingCodeBlobClosure
     \<Rightarrow> vm \<Rightarrow> event list" where
  "root_events so strong_roots strong_cld weak_cld code_roots w =
     map (Do_oop strong_roots) (thread_roots w) @
     map (\<lambda>c. Do_cld (if snd c then strong_cld else weak_cld) (fst c)) (cld_nodes w) @
     (if so = SO_None then [] else map (Do_code_blob code_roots) (code_blobs w))"

definition process_roots ::
  "ScanningOption \<Rightarrow> OopIterateClosure \<Rightarrow> CLDClosure \<Rightarrow> CLDClosure \<Rightarrow> MarkingCodeBlobClosure
     \<Rightarrow> vm \<Rightarrow> vm" where
  "process_roots so strong_roots strong_cld weak_cld code_roots w =
     w\<lparr>trace := trace w @ root_events so strong_roots strong_cld weak_cld code_roots w\<rparr>"

text \<open>
  Modelled from the spec: \<^verbatim>\<open>TenuredGeneration::younger_refs_iterate\<close> (not part of the
  sources at hand) applies the visitor to the recorded old-to-young reference entries of
  the old generation, and to nothing else.
\<close>

definition younger_refs_iterate :: "OopIterateClosure \<Rightarrow> vm \<Rightarrow> vm" where
  "younger_refs_iterate blk w =
     w\<lparr>trace := trace w @ map (Do_oop blk) (younger_refs (old_gen w))\<rparr>"

text \<open>\<^verbatim>\<open>SerialHeap::young_process_roots\<close>.\<close>

definition young_process_roots :: "OopIterateClosure \<Rightarrow> OopIterateClosure \<Rightarrow> CLDClosure \<Rightarrow> vm \<Rightarrow> vm" where
  "young_process_roots root_closure old_gen_closure cld_closure w =
     (let mark_code_closure = \<lparr>cl = root_closure, fix_relocations = FixRelocations,
                                keepalive_nmethods = False\<rparr>;
          w1 = process_roots SO_ScavengeCodeCache root_closure cld_closure cld_closure
                 mark_code_closure w
      in younger_refs_iterate old_gen_closure w1)"

section \<open>Safepoint synchronization\<close>

text \<open>
  Modelled from the spec: \<^verbatim>\<open>SuspendibleThreadSet::synchronize\<close> and
  \<^verbatim>\<open>desynchronize\<close> (suspendibleThreadSet.cpp is not part of the sources at hand).
  \<open>synchronize\<close> takes the gate from \<open>Idle\<close> through \<open>SynchronizingWorker\<close> to
  \<open>PausedWithWorkerParked\<close> and returns once the worker has acknowledged;
  \<open>desynchronize\<close> takes it from \<open>PausedWithWorkerParked\<close> back to \<open>Idle\<close>. The spec
  names no other transition, so from any other state the gate stays where it is.
\<close>

definition STS_synchronize :: "vm \<Rightarrow> vm" where
  "STS_synchronize w = (if sts w = Idle then w\<lparr>sts := PausedWithWorkerParked\<rparr> else w)"

definition STS_desynchronize :: "vm \<Rightarrow> vm" where
  "STS_desynchronize w = (if sts w = PausedWithWorkerParked then w\<lparr>sts := Idle\<rparr> else w)"

text \<open>\<^verbatim>\<open>SerialHeap::safepoint_synchronize_begin\<close> and \<^verbatim>\<open>safepoint_synchronize_end\<close>.\<close>

definition safepoint_synchronize_begin :: "vm \<Rightarrow> vm" where
  "safepoint_synchronize_begin w = (if UseStringDeduplication w then STS_synchronize w else w)"

definition safepoint_synchronize_end :: "vm \<Rightarrow> vm" where
  "safepoint_synchronize_end w = (if UseStringDeduplication w then STS_desynchronize w else w)"

section \<open>Archive space\<close>

text \<open>
  Modelled from the spec: \<^verbatim>\<open>MutexLocker ml(Heap_lock)\<close> (mutexLocker.hpp is not part of
  the sources at hand). The constructor takes the heap-wide allocation lock for the
  calling thread and the destructor gives it back when the scope is left. The lock is
  exclusive and not reentrant: while it is held, a thread that wants it waits (\<open>None\<close>).
\<close>

definition MutexLocker_lock :: "JavaThread \<Rightarrow> vm \<Rightarrow> vm option" where
  "MutexLocker_lock self w =
     (if Heap_lock w = None
      then Some (w\<lparr>Heap_lock := Some self, trace := trace w @ [Mutex_lock self]\<rparr>)
      else None)"

definition MutexLocker_unlock :: "JavaThread \<Rightarrow> vm \<Rightarrow> vm" where
  "MutexLocker_unlock self w = w\<lparr>Heap_lock := None, trace := trace w @ [Mutex_unlock self]\<rparr>"

text \<open>
  Modelled from the spec: \<^verbatim>\<open>TenuredGeneration::allocate\<close> (not part of the sources at
  hand). The old generation hands out the words at its allocation pointer when it has
  contiguous free space of the requested size, and fails with a null address when it
  does not. The call is an event of the trace.
\<close>

definition old_allocate :: "nat \<Rightarrow> bool \<Rightarrow> vm \<Rightarrow> HeapWord option \<times> vm" where
  "old_allocate word_size is_tlab w =
     (let s = the_space (old_gen w) in
      if word_size \<le> free_words s
      then (Some (space_top s),
            w\<lparr>old_gen := (old_gen w)\<lparr>the_space := s\<lparr>space_top := space_top s + word_size\<rparr>\<rparr>,
              trace := trace w @ [Old_allocate word_size (Some (space_top s))]\<rparr>)
      else (None, w\<lparr>trace := trace w @ [Old_allocate word_size None]\<rparr>))"

text \<open>
  \<^verbatim>\<open>SerialHeap::allocate_loaded_archive_space\<close>; \<open>self\<close> is the calling thread.
\<close>

definition allocate_loaded_archive_space :: "JavaThread \<Rightarrow> nat \<Rightarrow> vm \<Rightarrow> (HeapWord option) outcome" where
  "allocate_loaded_archive_space self word_size w =
     (case MutexLocker_lock self w of
        None \<Rightarrow> Blocked w
      | Some w1 \<Rightarrow>
          (let (res, w2) = old_allocate word_size False w1
           in Returned res (MutexLocker_unlock self w2)))"

text \<open>
  The macro \<^verbatim>\<open>assert(p, msg)\<close> of the VM (utilities/debug.hpp, not part of the sources at
  hand) is a parameter of the build: where assertions are compiled in (\<open>ASSERT\<close>), a
  false condition stops the VM with a fatal error; where they are not, the macro expands
  to nothing and the condition is not evaluated.
\<close>

definition vmassert :: "bool \<Rightarrow> error \<Rightarrow> vm \<Rightarrow> error option" where
  "vmassert p e w = (if ASSERT w \<and> \<not> p then Some e else None)"

text \<open>
  Modelled from the spec: \<^verbatim>\<open>TenuredGeneration::complete_loaded_archive_space\<close> (not part
  of the sources at hand) tells the allocator of the old generation that the region is
  permanently occupied.
\<close>

definition old_complete_loaded_archive_space :: "MemRegion \<Rightarrow> vm \<Rightarrow> vm" where
  "old_complete_loaded_archive_space r w =
     w\<lparr>old_gen := (old_gen w)\<lparr>archive_regions := archive_regions (old_gen w) @ [r]\<rparr>\<rparr>"

text \<open>\<^verbatim>\<open>SerialHeap::complete_loaded_archive_space\<close>.\<close>

definition complete_loaded_archive_space :: "MemRegion \<Rightarrow> vm \<Rightarrow> unit outcome" where
  "complete_loaded_archive_space archive_space w =
     (case vmassert (MemRegion_contains (used_region (the_space (old_gen w))) archive_space)
             ArchiveRegionViolation w of
        Some e \<Rightarrow> Fatal e w
      | None \<Rightarrow> Returned () (old_complete_loaded_archive_space archive_space w))"

section \<open>Pinning\<close>

text \<open>
  Modelled from the spec: \<^verbatim>\<open>GCLocker::lock_critical\<close> and \<^verbatim>\<open>unlock_critical\<close>
  (gcLocker.inline.hpp is not part of the sources at hand). Pin and unpin acquire the
  heap-wide allocation lock, which is exclusive and not reentrant: while another holder
  has it, the caller waits. Under the lock, entering a critical section increments a
  global counter and leaving one decrements it; a thread that wants to enter while a
  collection is in progress waits. A caller that waits has changed nothing.
\<close>

definition lock_critical :: "JavaThread \<Rightarrow> vm \<Rightarrow> unit outcome" where
  "lock_critical thread w =
     (case MutexLocker_lock thread w of
        None \<Rightarrow> Blocked w
      | Some w1 \<Rightarrow>
          if collection_in_progress w1 then Blocked w
          else Returned ()
                 (MutexLocker_unlock thread (w1\<lparr>jni_lock_count := jni_lock_count w1 + 1\<rparr>)))"

definition unlock_critical :: "JavaThread \<Rightarrow> vm \<Rightarrow> unit outcome" where
  "unlock_critical thread w =
     (case MutexLocker_lock thread w of
        None \<Rightarrow> Blocked w
      | Some w1 \<Rightarrow>
          Returned ()
            (MutexLocker_unlock thread (w1\<lparr>jni_lock_count := jni_lock_count w1 - 1\<rparr>)))"

text \<open>
  Modelled from the spec: the start and the end of a collection pause (the collection
  code is not part of the sources at hand). While the critical-section counter is
  positive a pause does not start: there is no pause state transition. Every pause that
  starts is bracketed by the safepoint gate, \<open>safepoint_synchronize_begin\<close> at its start
  and \<open>safepoint_synchronize_end\<close> at its end.
\<close>

definition begin_collection :: "vm \<Rightarrow> unit outcome" where
  "begin_collection w =
     (if 0 < jni_lock_count w then Blocked w
      else Returned () ((safepoint_synchronize_begin w)\<lparr>collection_in_progress := True\<rparr>))"

definition end_collection :: "vm \<Rightarrow> vm" where
  "end_collection w = (safepoint_synchronize_end w)\<lparr>collection_in_progress := False\<rparr>"

text \<open>\<^verbatim>\<open>SerialHeap::pin_object\<close> and \<^verbatim>\<open>SerialHeap::unpin_object\<close>.\<close>

definition pin_object :: "JavaThread \<Rightarrow> oop \<Rightarrow> vm \<Rightarrow> unit outcome" where
  "pin_object thread obj w = lock_critical thread w"

definition unpin_object :: "JavaThread \<Rightarrow> oop \<Rightarrow> vm \<Rightarrow> unit outcome" where
  "unpin_object thread obj w = unlock_critical thread w"

section \<open>What the pools report\<close>

text \<open>
  Modelled from the spec: the usage queries of the pool classes (genMemoryPools.cpp is
  not part of the sources at hand). Used and committed bytes are computed on demand from
  the space the pool refers to; the maximum is the size given at construction.
\<close>

definition HeapWordSize :: nat where
  "HeapWordSize = 8"

definition space_used :: "ContiguousSpace \<Rightarrow> nat" where
  "space_used s = (space_top s - space_bottom s) * HeapWordSize"

definition space_capacity :: "ContiguousSpace \<Rightarrow> nat" where
  "space_capacity s = (space_end s - space_bottom s) * HeapWordSize"

definition pool_space :: "vm \<Rightarrow> MemoryPool \<Rightarrow> ContiguousSpace" where
  "pool_space w p =
     (case pool_class p of
        ContiguousSpacePool \<Rightarrow> eden (young_gen w)
      | SurvivorContiguousSpacePool \<Rightarrow> from_space (young_gen w)
      | GenerationPool \<Rightarrow> the_space (old_gen w))"

definition pool_at :: "vm \<Rightarrow> MemoryPool_ptr \<Rightarrow> MemoryPool option" where
  "pool_at w p =
     (case p of None \<Rightarrow> None
      | Some i \<Rightarrow> if i < length (mpools w) then Some (mpools w ! i) else None)"

text \<open>Used, committed and maximum bytes of the pool behind a pointer.\<close>

definition pool_usage :: "vm \<Rightarrow> MemoryPool_ptr \<Rightarrow> (nat \<times> nat \<times> nat) option" where
  "pool_usage w p =
     map_option (\<lambda>q. (space_used (pool_space w q), space_capacity (pool_space w q), pool_max_size q))
       (pool_at w p)"

text \<open>What a manager group reports: the usage of each of its pools, in order.\<close>

definition manager_report :: "vm \<Rightarrow> GCMemoryManager_ptr \<Rightarrow> (nat \<times> nat \<times> nat) option list" where
  "manager_report w m = map (pool_usage w) (manager_pools w m)"

section \<open>Sequences of calls\<close>

text \<open>
  The calls that the file offers once the heap is initialized, and their effect on the
  state. A blocked call leaves the state as it is; a fatal error ends the run.
\<close>

datatype heap_call =
    Young_process_roots OopIterateClosure OopIterateClosure CLDClosure
  | Safepoint_synchronize_begin
  | Safepoint_synchronize_end
  | Allocate_loaded_archive_space JavaThread nat
  | Complete_loaded_archive_space MemRegion
  | Pin_object JavaThread oop
  | Unpin_object JavaThread oop

fun state_of :: "'a outcome \<Rightarrow> vm" where
  "state_of (Returned x w) = w"
| "state_of (Blocked w) = w"
| "state_of (Fatal e w) = w"

fun is_fatal :: "'a outcome \<Rightarrow> bool" where
  "is_fatal (Fatal e w) = True"
| "is_fatal r = False"

fun call :: "heap_call \<Rightarrow> vm \<Rightarrow> bool \<times> vm" where
  "call (Young_process_roots rc oc cc) w = (False, young_process_roots rc oc cc w)"
| "call Safepoint_synchronize_begin w = (False, safepoint_synchronize_begin w)"
| "call Safepoint_synchronize_end w = (False, safepoint_synchronize_end w)"
| "call (Allocate_loaded_archive_space t n) w =
     (let r = allocate_loaded_archive_space t n w in (is_fatal r, state_of r))"
| "call (Complete_loaded_archive_space mr) w =
     (let r = complete_loaded_archive_space mr w in (is_fatal r, state_of r))"
| "call (Pin_object t obj) w = (let r = pin_object t obj w in (is_fatal r, state_of r))"
| "call (Unpin_object t obj) w = (let r = unpin_object t obj w in (is_fatal r, state_of r))"

fun run :: "heap_call list \<Rightarrow> vm \<Rightarrow> vm" where
  "run [] w = w"
| "run (c # cs) w = (let (fatal, w1) = call c w in if fatal then w1 else run cs w1)"

section \<open>Example states\<close>

text \<open>
  A small VM before the heap is constructed: an old generation of 100 committed words at
  address 1000 with 40 words used, and string deduplication switched off.
\<close>

definition example_vm :: vm where
  "example_vm =
     \<lparr>managers = [], mpools = [],
      young_gen = \<lparr>eden = \<lparr>space_bottom = 0, space_top = 10, space_end = 400\<rparr>,
                   from_space = \<lparr>space_bottom = 400, space_top = 405, space_end = 500\<rparr>,
                   to_space = \<lparr>space_bottom = 500, space_top = 500, space_end = 600\<rparr>,
                   max_eden_size = 800, max_survivor_size = 100, young_gc_manager = None\<rparr>,
      old_gen = \<lparr>the_space = \<lparr>space_bottom = 1000, space_top = 1040, space_end = 1100\<rparr>,
                 max_capacity = 2000, old_slots = [1001, 1002, 1003], younger_refs = [1002],
                 archive_regions = [], old_gc_manager = None\<rparr>,
      thread_roots = [7], cld_nodes = [(8, True)], code_blobs = [9],
      UseStringDeduplication = False, ASSERT = True, sts = Idle, Heap_lock = None,
      jni_lock_count = 0, collection_in_progress = False, trace = []\<rparr>"

section \<open>Properties\<close>

subsection \<open>Frame lemmas for the store operations\<close>

lemma SerialHeap_ctor_eq:
  "SerialHeap_ctor w =
    (\<lparr>young_manager = length (managers w), old_manager = Suc (length (managers w)),
      eden_pool = None, survivor_pool = None, old_pool = None\<rparr>,
     w\<lparr>managers := managers w @
          [\<lparr>manager_name = ''Copy'', gc_end_message = ''end of minor GC'', pools = []\<rparr>,
           \<lparr>manager_name = ''MarkSweepCompact'', gc_end_message = ''end of major GC'',
            pools = []\<rparr>]\<rparr>)"
  by (simp add: SerialHeap_ctor_def new_GCMemoryManager_def)

lemma add_pool_fields [simp]:
  "mpools (add_pool m p w) = mpools w"
  "young_gen (add_pool m p w) = young_gen w"
  "old_gen (add_pool m p w) = old_gen w"
  "length (managers (add_pool m p w)) = length (managers w)"
  by (simp_all add: add_pool_def)

lemma add_pool_names [simp]:
  "manager_name (managers (add_pool m p w) ! k) = manager_name (managers w ! k)"
  "gc_end_message (managers (add_pool m p w) ! k) = gc_end_message (managers w ! k)"
  by (simp_all add: add_pool_def nth_list_update)

lemma manager_pools_add_pool:
  "m < length (managers w) \<Longrightarrow>
   manager_pools (add_pool m p w) k =
     (if k = m then manager_pools w m @ [p] else manager_pools w k)"
  by (simp add: manager_pools_def add_pool_def)

lemma set_gc_manager_fields [simp]:
  "manager_pools (young_set_gc_manager m w) k = manager_pools w k"
  "manager_pools (old_set_gc_manager m w) k = manager_pools w k"
  "managers (young_set_gc_manager m w) = managers w"
  "managers (old_set_gc_manager m w) = managers w"
  "mpools (young_set_gc_manager m w) = mpools w"
  "mpools (old_set_gc_manager m w) = mpools w"
  by (simp_all add: manager_pools_def young_set_gc_manager_def old_set_gc_manager_def)

lemma new_MemoryPool_fields [simp]:
  "manager_pools (snd (new_MemoryPool p w)) k = manager_pools w k"
  "managers (snd (new_MemoryPool p w)) = managers w"
  "mpools (snd (new_MemoryPool p w)) = mpools w @ [p]"
  "fst (new_MemoryPool p w) = Some (length (mpools w))"
  "young_gen (snd (new_MemoryPool p w)) = young_gen w"
  "old_gen (snd (new_MemoryPool p w)) = old_gen w"
  by (simp_all add: new_MemoryPool_def manager_pools_def)

lemmas new_pool_defs =
  new_ContiguousSpacePool_def new_SurvivorContiguousSpacePool_def new_GenerationPool_def

subsection \<open>What the initialization leaves behind\<close>

lemma init_heap:
  "fst (initialize_serviceability h w) =
     h\<lparr>eden_pool := Some (length (mpools w)), survivor_pool := Some (Suc (length (mpools w))),
       old_pool := Some (Suc (Suc (length (mpools w))))\<rparr>"
  by (simp add: initialize_serviceability_def new_pool_defs split_def Let_def)

lemma init_mpools:
  "mpools (snd (initialize_serviceability h w)) = mpools w @
     [\<lparr>pool_class = ContiguousSpacePool, pool_name = ''Eden Space'',
       pool_max_size = max_eden_size (young_gen w), support_usage_threshold = False\<rparr>,
      \<lparr>pool_class = SurvivorContiguousSpacePool, pool_name = ''Survivor Space'',
       pool_max_size = max_survivor_size (young_gen w), support_usage_threshold = False\<rparr>,
      \<lparr>pool_class = GenerationPool, pool_name = ''Tenured Gen'',
       pool_max_size = max_capacity (old_gen w), support_usage_threshold = True\<rparr>]"
  by (simp add: initialize_serviceability_def new_pool_defs split_def Let_def)

lemma init_manager_pools:
  assumes "young_manager h < length (managers w)" "old_manager h < length (managers w)"
    "young_manager h \<noteq> old_manager h"
  shows "manager_pools (snd (initialize_serviceability h w)) (young_manager h) =
           manager_pools w (young_manager h) @
             [Some (length (mpools w)), Some (Suc (length (mpools w)))]"
    and "manager_pools (snd (initialize_serviceability h w)) (old_manager h) =
           manager_pools w (old_manager h) @
             [Some (length (mpools w)), Some (Suc (length (mpools w))),
              Some (Suc (Suc (length (mpools w))))]"
  using assms
  by (simp_all add: initialize_serviceability_def new_pool_defs split_def Let_def
      manager_pools_add_pool)

lemma init_names:
  "manager_name (managers (snd (initialize_serviceability h w)) ! k) = manager_name (managers w ! k)"
  "gc_end_message (managers (snd (initialize_serviceability h w)) ! k) =
     gc_end_message (managers w ! k)"
  by (simp_all add: initialize_serviceability_def new_pool_defs split_def Let_def)

lemma pool_at_cong: "mpools w = mpools w' \<Longrightarrow> pool_at w p = pool_at w' p"
  by (cases p) (simp_all add: pool_at_def)

text \<open>The heap and the two stores after construction and initialization.\<close>

lemma constructed_heap:
  "fst (constructed w) =
     \<lparr>young_manager = length (managers w), old_manager = Suc (length (managers w)),
      eden_pool = Some (length (mpools w)), survivor_pool = Some (Suc (length (mpools w))),
      old_pool = Some (Suc (Suc (length (mpools w))))\<rparr>"
  by (simp add: constructed_def SerialHeap_ctor_eq init_heap)

lemma constructed_mpools:
  "mpools (snd (constructed w)) = mpools w @
     [\<lparr>pool_class = ContiguousSpacePool, pool_name = ''Eden Space'',
       pool_max_size = max_eden_size (young_gen w), support_usage_threshold = False\<rparr>,
      \<lparr>pool_class = SurvivorContiguousSpacePool, pool_name = ''Survivor Space'',
       pool_max_size = max_survivor_size (young_gen w), support_usage_threshold = False\<rparr>,
      \<lparr>pool_class = GenerationPool, pool_name = ''Tenured Gen'',
       pool_max_size = max_capacity (old_gen w), support_usage_threshold = True\<rparr>]"
  by (simp add: constructed_def SerialHeap_ctor_eq init_mpools)

lemma constructed_manager_pools:
  "manager_pools (snd (constructed w)) (length (managers w)) =
     [Some (length (mpools w)), Some (Suc (length (mpools w)))]"
  "manager_pools (snd (constructed w)) (Suc (length (managers w))) =
     [Some (length (mpools w)), Some (Suc (length (mpools w))),
      Some (Suc (Suc (length (mpools w))))]"
proof -
  let ?h = "fst (SerialHeap_ctor w)" and ?w = "snd (SerialHeap_ctor w)"
  have ym: "young_manager ?h = length (managers w)"
    and om: "old_manager ?h = Suc (length (managers w))"
    and len: "length (managers ?w) = Suc (Suc (length (managers w)))"
    and mp: "mpools ?w = mpools w"
    and e1: "manager_pools ?w (length (managers w)) = []"
    and e2: "manager_pools ?w (Suc (length (managers w))) = []"
    by (simp_all add: SerialHeap_ctor_eq manager_pools_def nth_append)
  have c: "constructed w = initialize_serviceability ?h ?w"
    by (simp add: constructed_def split_def Let_def)
  have a1: "young_manager ?h < length (managers ?w)" using ym len by simp
  have a2: "old_manager ?h < length (managers ?w)" using om len by simp
  have a3: "young_manager ?h \<noteq> old_manager ?h" using ym om by simp
  show "manager_pools (snd (constructed w)) (length (managers w)) =
     [Some (length (mpools w)), Some (Suc (length (mpools w)))]"
    using init_manager_pools(1) [OF a1 a2 a3] by (simp add: c ym e1 mp)
  show "manager_pools (snd (constructed w)) (Suc (length (managers w))) =
     [Some (length (mpools w)), Some (Suc (length (mpools w))),
      Some (Suc (Suc (length (mpools w))))]"
    using init_manager_pools(2) [OF a1 a2 a3] by (simp add: c om e2 mp)
qed

lemma constructed_names:
  "manager_name (managers (snd (constructed w)) ! length (managers w)) = ''Copy''"
  "gc_end_message (managers (snd (constructed w)) ! length (managers w)) = ''end of minor GC''"
  "manager_name (managers (snd (constructed w)) ! Suc (length (managers w))) = ''MarkSweepCompact''"
  "gc_end_message (managers (snd (constructed w)) ! Suc (length (managers w))) = ''end of major GC''"
  by (simp_all add: constructed_def SerialHeap_ctor_eq init_names nth_append)

lemma constructed_pool_at:
  "pool_at (snd (constructed w)) (Some (length (mpools w))) =
     Some \<lparr>pool_class = ContiguousSpacePool, pool_name = ''Eden Space'',
       pool_max_size = max_eden_size (young_gen w), support_usage_threshold = False\<rparr>"
  "pool_at (snd (constructed w)) (Some (Suc (length (mpools w)))) =
     Some \<lparr>pool_class = SurvivorContiguousSpacePool, pool_name = ''Survivor Space'',
       pool_max_size = max_survivor_size (young_gen w), support_usage_threshold = False\<rparr>"
  "pool_at (snd (constructed w)) (Some (Suc (Suc (length (mpools w))))) =
     Some \<lparr>pool_class = GenerationPool, pool_name = ''Tenured Gen'',
       pool_max_size = max_capacity (old_gen w), support_usage_threshold = True\<rparr>"
  by (simp_all add: pool_at_def constructed_mpools nth_append)

subsection \<open>Wiring of pools and managers\<close>

text \<open>
  C1. After construction and the deferred initialization, the young manager owns exactly
  the pools eden and survivor, in that order, and the old manager exactly eden, survivor
  and old, in that order; \<open>memory_managers\<close> returns the two managers young and old (the
  ones named Copy and MarkSweepCompact, two different objects), and \<open>memory_pools\<close>
  returns the three pools eden, survivor and old (the ones named Eden Space, Survivor
  Space and Tenured Gen, three different objects).
\<close>

theorem initialize_serviceability_wiring:
  "(case constructed w of (h, w') \<Rightarrow>
      manager_pools w' (young_manager h) = [eden_pool h, survivor_pool h] \<and>
      manager_pools w' (old_manager h) = [eden_pool h, survivor_pool h, old_pool h] \<and>
      memory_managers h = [young_manager h, old_manager h] \<and>
      memory_pools h = [eden_pool h, survivor_pool h, old_pool h] \<and>
      young_manager h \<noteq> old_manager h \<and>
      distinct (memory_pools h) \<and>
      map (\<lambda>m. manager_name (managers w' ! m)) (memory_managers h) =
        [''Copy'', ''MarkSweepCompact''] \<and>
      map (\<lambda>p. map_option pool_name (pool_at w' p)) (memory_pools h) =
        [Some ''Eden Space'', Some ''Survivor Space'', Some ''Tenured Gen''] \<and>
      map (\<lambda>p. map_option pool_class (pool_at w' p)) (memory_pools h) =
        [Some ContiguousSpacePool, Some SurvivorContiguousSpacePool, Some GenerationPool])"
  by (simp add: split_def constructed_heap constructed_manager_pools constructed_names
      constructed_pool_at memory_managers_def memory_pools_def)

subsection \<open>The calls after initialization leave the stores alone\<close>

lemma call_stores:
  "managers (snd (call c w)) = managers w \<and> mpools (snd (call c w)) = mpools w"
proof (cases c)
  case (Young_process_roots rc oc cc)
  then show ?thesis
    by (simp add: young_process_roots_def process_roots_def younger_refs_iterate_def)
next
  case Safepoint_synchronize_begin
  then show ?thesis by (simp add: safepoint_synchronize_begin_def STS_synchronize_def)
next
  case Safepoint_synchronize_end
  then show ?thesis by (simp add: safepoint_synchronize_end_def STS_desynchronize_def)
next
  case (Allocate_loaded_archive_space t n)
  then show ?thesis
    by (simp add: allocate_loaded_archive_space_def MutexLocker_lock_def MutexLocker_unlock_def
        old_allocate_def Let_def)
next
  case (Complete_loaded_archive_space mr)
  then show ?thesis
    by (simp add: complete_loaded_archive_space_def vmassert_def
        old_complete_loaded_archive_space_def)
next
  case (Pin_object t obj)
  then show ?thesis
    by (simp add: pin_object_def lock_critical_def MutexLocker_lock_def MutexLocker_unlock_def)
next
  case (Unpin_object t obj)
  then show ?thesis
    by (simp add: unpin_object_def unlock_critical_def MutexLocker_lock_def
        MutexLocker_unlock_def)
qed

lemma run_stores:
  "managers (run cs w) = managers w \<and> mpools (run cs w) = mpools w"
proof (induction cs arbitrary: w)
  case Nil
  show ?case by simp
next
  case (Cons c cs)
  show ?case
    using call_stores [of c w] Cons.IH [of "snd (call c w)"]
    by (simp add: split_def Let_def)
qed

lemma run_pool_at: "pool_at (run cs w) p = pool_at w p"
  by (rule pool_at_cong) (simp add: run_stores)

lemma observed_manager_pools:
  "manager_pools ((run cs w)\<lparr>young_gen := y, old_gen := t\<rparr>) m = manager_pools w m"
  by (simp add: manager_pools_def run_stores)

lemma observed_pool_at:
  "pool_at ((run cs w)\<lparr>young_gen := y, old_gen := t\<rparr>) p = pool_at w p"
  by (rule pool_at_cong) (simp add: run_stores)

subsection \<open>Usage-threshold support\<close>

text \<open>
  C6. The usage-threshold-support flag of a pool is what its constructor was given: false
  for the eden pool and for the survivor pool, true for the tenured pool. No later call of
  the file changes it.
\<close>

theorem support_usage_threshold_fixed:
  "(case constructed w of (h, w1) \<Rightarrow>
      map (\<lambda>p. map_option pool_class (pool_at (run cs w1) p))
          [eden_pool h, survivor_pool h, old_pool h] =
        [Some ContiguousSpacePool, Some SurvivorContiguousSpacePool, Some GenerationPool] \<and>
      map (\<lambda>p. map_option support_usage_threshold (pool_at (run cs w1) p))
          [eden_pool h, survivor_pool h, old_pool h] =
        [Some False, Some False, Some True])"
  by (simp add: split_def run_pool_at constructed_heap constructed_pool_at)

subsection \<open>Names of the managers\<close>

text \<open>
  C8. From construction onward the young manager is named Copy with the trigger
  description "end of minor GC", and the old manager is named MarkSweepCompact with the
  trigger description "end of major GC": this holds right after the constructor, and
  after the initialization followed by any calls of the file, for the same two managers.
\<close>

theorem manager_names_fixed:
  "(case SerialHeap_ctor w of (h0, w0) \<Rightarrow>
      manager_name (managers w0 ! young_manager h0) = ''Copy'' \<and>
      gc_end_message (managers w0 ! young_manager h0) = ''end of minor GC'' \<and>
      manager_name (managers w0 ! old_manager h0) = ''MarkSweepCompact'' \<and>
      gc_end_message (managers w0 ! old_manager h0) = ''end of major GC'' \<and>
      (case initialize_serviceability h0 w0 of (h, w1) \<Rightarrow>
         young_manager h = young_manager h0 \<and> old_manager h = old_manager h0 \<and>
         manager_name (managers (run cs w1) ! young_manager h) = ''Copy'' \<and>
         gc_end_message (managers (run cs w1) ! young_manager h) = ''end of minor GC'' \<and>
         manager_name (managers (run cs w1) ! old_manager h) = ''MarkSweepCompact'' \<and>
         gc_end_message (managers (run cs w1) ! old_manager h) = ''end of major GC''))"
  by (simp add: split_def run_stores init_heap init_names SerialHeap_ctor_eq nth_append)

subsection \<open>Shared pools\<close>

text \<open>
  C10. The eden and survivor pools attached to the young manager are the same objects as
  the ones attached to the old manager: the pool pointers of the young manager are the
  first two pool pointers of the old manager. So after any calls of the file, and
  whatever the generations hold at the moment of observation, what the young manager
  reports for its pools (used, committed and maximum bytes) is what the old manager
  reports for its first two pools.
\<close>

theorem eden_survivor_pools_shared:
  "(case constructed w of (h, w1) \<Rightarrow>
      (let w' = (run cs w1)\<lparr>young_gen := y, old_gen := t\<rparr> in
       manager_pools w' (young_manager h) = [eden_pool h, survivor_pool h] \<and>
       take 2 (manager_pools w' (old_manager h)) = [eden_pool h, survivor_pool h] \<and>
       manager_report w' (young_manager h) = take 2 (manager_report w' (old_manager h)) \<and>
       list_all (\<lambda>u. u \<noteq> None) (manager_report w' (young_manager h))))"
  by (simp add: split_def Let_def manager_report_def observed_manager_pools
      constructed_heap constructed_manager_pools pool_usage_def observed_pool_at
      constructed_pool_at)

subsection \<open>Root scanning order\<close>

text \<open>
  C2. A call of \<open>young_process_roots\<close> changes nothing but the trace, to which it adds
  first the events of the root enumeration (the thread roots with the root visitor, the
  class-loader nodes with the class-loader visitor, the compiled-code objects with a
  code visitor that wraps the root visitor and asks for relocation fix-up) and only then
  the visits of the old-generation visitor, which are exactly one visit for each
  recorded old-to-young reference entry of the old generation, not one for each slot of
  the old generation: the trace is the same whatever slots the old generation has.
\<close>

theorem young_process_roots_order:
  "young_process_roots root_closure old_gen_closure cld_closure w =
     w\<lparr>trace := trace w @
          root_events SO_ScavengeCodeCache root_closure cld_closure cld_closure
            \<lparr>cl = root_closure, fix_relocations = FixRelocations, keepalive_nmethods = False\<rparr> w @
          map (Do_oop old_gen_closure) (younger_refs (old_gen w))\<rparr> \<and>
   set (root_events SO_ScavengeCodeCache root_closure cld_closure cld_closure
          \<lparr>cl = root_closure, fix_relocations = FixRelocations, keepalive_nmethods = False\<rparr> w) =
     Do_oop root_closure ` set (thread_roots w) \<union>
     Do_cld cld_closure ` fst ` set (cld_nodes w) \<union>
     Do_code_blob \<lparr>cl = root_closure, fix_relocations = FixRelocations,
                   keepalive_nmethods = False\<rparr> ` set (code_blobs w) \<and>
   trace (young_process_roots root_closure old_gen_closure cld_closure
            (w\<lparr>old_gen := (old_gen w)\<lparr>old_slots := slots\<rparr>\<rparr>)) =
     trace (young_process_roots root_closure old_gen_closure cld_closure w)"
  by (auto simp add: young_process_roots_def process_roots_def younger_refs_iterate_def
      root_events_def Let_def image_iff)

subsection \<open>Safepoint synchronization\<close>

text \<open>
  C3. With string deduplication disabled, \<open>safepoint_synchronize_begin\<close> and
  \<open>safepoint_synchronize_end\<close> leave the whole state as it is. With it enabled, the first
  is the suspend handshake \<open>synchronize\<close> (it takes an idle gate to the state where the
  worker is parked) and the second is the release \<open>desynchronize\<close> (it takes the gate
  back to idle).
\<close>

theorem safepoint_synchronize_gate:
  "(\<not> UseStringDeduplication w \<longrightarrow>
      safepoint_synchronize_begin w = w \<and> safepoint_synchronize_end w = w) \<and>
   (UseStringDeduplication w \<longrightarrow>
      safepoint_synchronize_begin w = STS_synchronize w \<and>
      safepoint_synchronize_end w = STS_desynchronize w \<and>
      (sts w = Idle \<longrightarrow>
         sts (safepoint_synchronize_begin w) = PausedWithWorkerParked \<and>
         safepoint_synchronize_end (safepoint_synchronize_begin w) = w))"
  by (simp add: safepoint_synchronize_begin_def safepoint_synchronize_end_def
      STS_synchronize_def STS_desynchronize_def)

theorem safepoint_synchronize_gate_witness:
  "\<not> UseStringDeduplication example_vm \<and>
   safepoint_synchronize_begin example_vm = example_vm \<and>
   safepoint_synchronize_end example_vm = example_vm \<and>
   UseStringDeduplication (example_vm\<lparr>UseStringDeduplication := True\<rparr>) \<and>
   sts (example_vm\<lparr>UseStringDeduplication := True\<rparr>) = Idle \<and>
   sts (safepoint_synchronize_begin (example_vm\<lparr>UseStringDeduplication := True\<rparr>)) =
     PausedWithWorkerParked \<and>
   safepoint_synchronize_end
     (safepoint_synchronize_begin (example_vm\<lparr>UseStringDeduplication := True\<rparr>)) =
     example_vm\<lparr>UseStringDeduplication := True\<rparr>"
proof -
  have off: "\<not> UseStringDeduplication example_vm"
    by (simp add: example_vm_def)
  have on: "UseStringDeduplication (example_vm\<lparr>UseStringDeduplication := True\<rparr>)"
    by simp
  have idle: "sts (example_vm\<lparr>UseStringDeduplication := True\<rparr>) = Idle"
    by (simp add: example_vm_def)
  show ?thesis
    using off on idle safepoint_synchronize_gate [of example_vm]
      safepoint_synchronize_gate [of "example_vm\<lparr>UseStringDeduplication := True\<rparr>"]
    by blast
qed

subsection \<open>Reserving archive space\<close>

text \<open>
  C5. When the heap lock is free, \<open>allocate_loaded_archive_space\<close> returns; the result is
  the null address exactly when the free words of the old generation are fewer than the
  requested size, and otherwise the old allocation pointer, which moves up by the size.
  The young generation is as before. The trace gains the taking of the heap lock by the
  caller, the allocation in the old generation, and the release of the lock, in this
  order, and the lock is free again afterwards. When the lock is held, the caller waits
  and nothing is allocated.
\<close>

theorem allocate_loaded_archive_space_old_only:
  "(Heap_lock w = None \<longrightarrow>
      (\<exists>res w'. allocate_loaded_archive_space self word_size w = Returned res w' \<and>
         (res = None \<longleftrightarrow> free_words (the_space (old_gen w)) < word_size) \<and>
         (res \<noteq> None \<longrightarrow>
            res = Some (space_top (the_space (old_gen w))) \<and>
            space_top (the_space (old_gen w')) = space_top (the_space (old_gen w)) + word_size) \<and>
         (res = None \<longrightarrow> old_gen w' = old_gen w) \<and>
         young_gen w' = young_gen w \<and>
         trace w' = trace w @ [Mutex_lock self, Old_allocate word_size res, Mutex_unlock self] \<and>
         Heap_lock w' = None)) \<and>
   (Heap_lock w \<noteq> None \<longrightarrow> allocate_loaded_archive_space self word_size w = Blocked w)"
  by (auto simp add: allocate_loaded_archive_space_def MutexLocker_lock_def
      MutexLocker_unlock_def old_allocate_def Let_def)

theorem allocate_loaded_archive_space_old_only_witness:
  "Heap_lock example_vm = None \<and>
   allocate_loaded_archive_space 1 60 example_vm =
     Returned (Some 1040)
       (example_vm\<lparr>old_gen := (old_gen example_vm)
                      \<lparr>the_space := \<lparr>space_bottom = 1000, space_top = 1100, space_end = 1100\<rparr>\<rparr>,
                    trace := [Mutex_lock 1, Old_allocate 60 (Some 1040), Mutex_unlock 1]\<rparr>) \<and>
   (\<exists>w'. allocate_loaded_archive_space 1 61 example_vm = Returned None w' \<and>
         old_gen w' = old_gen example_vm) \<and>
   Heap_lock (example_vm\<lparr>Heap_lock := Some 2\<rparr>) \<noteq> None \<and>
   allocate_loaded_archive_space 1 60 (example_vm\<lparr>Heap_lock := Some 2\<rparr>) =
     Blocked (example_vm\<lparr>Heap_lock := Some 2\<rparr>)"
proof -
  have free: "Heap_lock example_vm = None"
    by (simp add: example_vm_def)
  have held: "Heap_lock (example_vm\<lparr>Heap_lock := Some 2\<rparr>) \<noteq> None"
    by simp
  have fw: "free_words (the_space (old_gen example_vm)) = 60"
    by (simp add: example_vm_def free_words_def)
  have a: "allocate_loaded_archive_space 1 60 example_vm =
     Returned (Some 1040)
       (example_vm\<lparr>old_gen := (old_gen example_vm)
                      \<lparr>the_space := \<lparr>space_bottom = 1000, space_top = 1100, space_end = 1100\<rparr>\<rparr>,
                    trace := [Mutex_lock 1, Old_allocate 60 (Some 1040), Mutex_unlock 1]\<rparr>)"
    by (simp add: allocate_loaded_archive_space_def MutexLocker_lock_def
        MutexLocker_unlock_def old_allocate_def Let_def example_vm_def free_words_def)
  have b: "\<exists>w'. allocate_loaded_archive_space 1 61 example_vm = Returned None w' \<and>
         old_gen w' = old_gen example_vm"
    using allocate_loaded_archive_space_old_only [of example_vm 1 61] free fw by auto
  have c: "allocate_loaded_archive_space 1 60 (example_vm\<lparr>Heap_lock := Some 2\<rparr>) =
     Blocked (example_vm\<lparr>Heap_lock := Some 2\<rparr>)"
    using allocate_loaded_archive_space_old_only [of "example_vm\<lparr>Heap_lock := Some 2\<rparr>" 1 60] held
    by blast
  show ?thesis using free held a b c by blast
qed

subsection \<open>Committing an archive region\<close>

text \<open>
  C4, as the claim states it, fails in a build without assertions: there a region that is
  not contained in the used part of the old generation is passed on to the old
  generation, whose state changes, and no error is raised.
\<close>

theorem complete_loaded_archive_space_counterexample:
  "\<not> MemRegion_contains (used_region (the_space (old_gen (example_vm\<lparr>ASSERT := False\<rparr>))))
       \<lparr>mr_start = 1090, mr_word_size = 20\<rparr> \<and>
   complete_loaded_archive_space \<lparr>mr_start = 1090, mr_word_size = 20\<rparr>
       (example_vm\<lparr>ASSERT := False\<rparr>) =
     Returned ()
       (example_vm\<lparr>ASSERT := False,
                   old_gen := (old_gen example_vm)
                      \<lparr>archive_regions := [\<lparr>mr_start = 1090, mr_word_size = 20\<rparr>]\<rparr>\<rparr>) \<and>
   complete_loaded_archive_space \<lparr>mr_start = 1090, mr_word_size = 20\<rparr>
       (example_vm\<lparr>ASSERT := False\<rparr>) \<noteq>
     Fatal ArchiveRegionViolation (example_vm\<lparr>ASSERT := False\<rparr>) \<and>
   old_gen (state_of (complete_loaded_archive_space \<lparr>mr_start = 1090, mr_word_size = 20\<rparr>
       (example_vm\<lparr>ASSERT := False\<rparr>))) \<noteq> old_gen (example_vm\<lparr>ASSERT := False\<rparr>)"
  by (simp add: complete_loaded_archive_space_def vmassert_def MemRegion_contains_def
      used_region_def mr_end_def old_complete_loaded_archive_space_def example_vm_def)

text \<open>
  C4, amended. In a build with assertions, \<open>complete_loaded_archive_space\<close> called with a
  region that is not fully contained in the used part of the old generation stops with
  the fatal error ArchiveRegionViolation and the state, that of the old generation
  included, is as before the call. In every build, when the region is contained, the call
  returns after telling the allocator of the old generation that the region is
  permanently occupied, and changes nothing else. In a build without assertions the
  containment is not checked and the region is passed on in either case.
\<close>

theorem complete_loaded_archive_space_checked:
  "(ASSERT w \<and> \<not> MemRegion_contains (used_region (the_space (old_gen w))) archive_space \<longrightarrow>
      complete_loaded_archive_space archive_space w = Fatal ArchiveRegionViolation w) \<and>
   (MemRegion_contains (used_region (the_space (old_gen w))) archive_space \<or> \<not> ASSERT w \<longrightarrow>
      complete_loaded_archive_space archive_space w =
        Returned () (w\<lparr>old_gen := (old_gen w)
                        \<lparr>archive_regions := archive_regions (old_gen w) @ [archive_space]\<rparr>\<rparr>))"
  by (auto simp add: complete_loaded_archive_space_def vmassert_def
      old_complete_loaded_archive_space_def)

theorem complete_loaded_archive_space_checked_witness:
  "ASSERT example_vm \<and>
   \<not> MemRegion_contains (used_region (the_space (old_gen example_vm)))
       \<lparr>mr_start = 1030, mr_word_size = 20\<rparr> \<and>
   complete_loaded_archive_space \<lparr>mr_start = 1030, mr_word_size = 20\<rparr> example_vm =
     Fatal ArchiveRegionViolation example_vm \<and>
   MemRegion_contains (used_region (the_space (old_gen example_vm)))
       \<lparr>mr_start = 1010, mr_word_size = 20\<rparr> \<and>
   complete_loaded_archive_space \<lparr>mr_start = 1010, mr_word_size = 20\<rparr> example_vm =
     Returned () (example_vm\<lparr>old_gen := (old_gen example_vm)
        \<lparr>archive_regions := archive_regions (old_gen example_vm) @
            [\<lparr>mr_start = 1010, mr_word_size = 20\<rparr>]\<rparr>\<rparr>)"
proof -
  have on: "ASSERT example_vm"
    by (simp add: example_vm_def)
  have out: "\<not> MemRegion_contains (used_region (the_space (old_gen example_vm)))
       \<lparr>mr_start = 1030, mr_word_size = 20\<rparr>"
    by (simp add: MemRegion_contains_def used_region_def mr_end_def example_vm_def)
  have inside: "MemRegion_contains (used_region (the_space (old_gen example_vm)))
       \<lparr>mr_start = 1010, mr_word_size = 20\<rparr>"
    by (simp add: MemRegion_contains_def used_region_def mr_end_def example_vm_def)
  show ?thesis
    using on out inside
      complete_loaded_archive_space_checked
        [of example_vm "\<lparr>mr_start = 1030, mr_word_size = 20\<rparr>"]
      complete_loaded_archive_space_checked
        [of example_vm "\<lparr>mr_start = 1010, mr_word_size = 20\<rparr>"]
    by blast
qed

subsection \<open>Pinning and collections\<close>

lemma heap_lock_free_update: "Heap_lock w = None \<Longrightarrow> w\<lparr>Heap_lock := None\<rparr> = w"
  by (cases w) simp

lemma lock_critical_let_in:
  assumes "Heap_lock w = None" "\<not> collection_in_progress w"
  shows "lock_critical thread w =
           Returned () (w\<lparr>jni_lock_count := jni_lock_count w + 1,
                          trace := trace w @ [Mutex_lock thread, Mutex_unlock thread]\<rparr>)"
proof -
  have "lock_critical thread w =
          Returned () ((w\<lparr>Heap_lock := None\<rparr>)\<lparr>jni_lock_count := jni_lock_count w + 1,
                          trace := trace w @ [Mutex_lock thread, Mutex_unlock thread]\<rparr>)"
    using assms by (simp add: lock_critical_def MutexLocker_lock_def MutexLocker_unlock_def)
  then show ?thesis by (simp only: heap_lock_free_update [OF assms(1)])
qed

lemma unlock_critical_let_in:
  assumes "Heap_lock w = None"
  shows "unlock_critical thread w =
           Returned () (w\<lparr>jni_lock_count := jni_lock_count w - 1,
                          trace := trace w @ [Mutex_lock thread, Mutex_unlock thread]\<rparr>)"
proof -
  have "unlock_critical thread w =
          Returned () ((w\<lparr>Heap_lock := None\<rparr>)\<lparr>jni_lock_count := jni_lock_count w - 1,
                          trace := trace w @ [Mutex_lock thread, Mutex_unlock thread]\<rparr>)"
    using assms by (simp add: unlock_critical_def MutexLocker_lock_def MutexLocker_unlock_def)
  then show ?thesis by (simp only: heap_lock_free_update [OF assms])
qed

lemma lock_critical_waits:
  "Heap_lock w \<noteq> None \<or> collection_in_progress w \<Longrightarrow> lock_critical thread w = Blocked w"
  by (auto simp add: lock_critical_def MutexLocker_lock_def)

lemma unlock_critical_waits:
  "Heap_lock w \<noteq> None \<Longrightarrow> unlock_critical thread w = Blocked w"
  by (auto simp add: unlock_critical_def MutexLocker_lock_def)

text \<open>
  C7. A call of \<open>pin_object\<close> that is let in (the heap lock is free and no collection is
  in progress) increments the one critical-section counter of the VM, whatever the
  thread, and a call of \<open>unpin_object\<close> that is let in (the heap lock is free) decrements
  it; each takes and releases the heap lock and changes nothing else. While another
  holder has the heap lock, both wait. While the counter is positive, a collection pause
  does not start: the state, the safepoint gate included, stays as it is. A call of
  \<open>pin_object\<close> made while a collection is in progress waits, without touching the
  counter, and is let in once the collection has finished. In particular, after a pin in
  a state with no collection and a counter of zero, a collection cannot start before the
  unpin, and starts after it.
\<close>

theorem pin_blocks_collection:
  "(Heap_lock w = None \<and> \<not> collection_in_progress w \<longrightarrow>
      pin_object thread obj w =
        Returned () (w\<lparr>jni_lock_count := jni_lock_count w + 1,
                       trace := trace w @ [Mutex_lock thread, Mutex_unlock thread]\<rparr>)) \<and>
   (Heap_lock w = None \<longrightarrow>
      unpin_object thread obj w =
        Returned () (w\<lparr>jni_lock_count := jni_lock_count w - 1,
                       trace := trace w @ [Mutex_lock thread, Mutex_unlock thread]\<rparr>)) \<and>
   (Heap_lock w \<noteq> None \<longrightarrow>
      pin_object thread obj w = Blocked w \<and> unpin_object thread obj w = Blocked w) \<and>
   (0 < jni_lock_count w \<longrightarrow>
      begin_collection w = Blocked w \<and>
      sts (state_of (begin_collection w)) = sts w \<and>
      collection_in_progress (state_of (begin_collection w)) = collection_in_progress w) \<and>
   (collection_in_progress w \<longrightarrow>
      pin_object thread obj w = Blocked w \<and>
      (Heap_lock w = None \<longrightarrow>
         pin_object thread obj (end_collection w) =
           Returned () ((end_collection w)\<lparr>jni_lock_count := jni_lock_count w + 1,
              trace := trace w @ [Mutex_lock thread, Mutex_unlock thread]\<rparr>))) \<and>
   (Heap_lock w = None \<and> \<not> collection_in_progress w \<and> jni_lock_count w = 0 \<longrightarrow>
      begin_collection (state_of (pin_object thread obj w)) =
        Blocked (state_of (pin_object thread obj w)) \<and>
      jni_lock_count (state_of (unpin_object thread obj (state_of (pin_object thread obj w)))) = 0 \<and>
      (\<exists>w'. begin_collection
               (state_of (unpin_object thread obj (state_of (pin_object thread obj w)))) =
               Returned () w' \<and> collection_in_progress w'))"
proof -
  have c1: "Heap_lock w = None \<and> \<not> collection_in_progress w \<longrightarrow>
      pin_object thread obj w =
        Returned () (w\<lparr>jni_lock_count := jni_lock_count w + 1,
                       trace := trace w @ [Mutex_lock thread, Mutex_unlock thread]\<rparr>)"
    by (simp add: pin_object_def lock_critical_let_in)
  have c2: "Heap_lock w = None \<longrightarrow>
      unpin_object thread obj w =
        Returned () (w\<lparr>jni_lock_count := jni_lock_count w - 1,
                       trace := trace w @ [Mutex_lock thread, Mutex_unlock thread]\<rparr>)"
    by (simp add: unpin_object_def unlock_critical_let_in)
  have c3: "Heap_lock w \<noteq> None \<longrightarrow>
      pin_object thread obj w = Blocked w \<and> unpin_object thread obj w = Blocked w"
    by (simp add: pin_object_def unpin_object_def lock_critical_waits unlock_critical_waits)
  have c4: "0 < jni_lock_count w \<longrightarrow>
      begin_collection w = Blocked w \<and>
      sts (state_of (begin_collection w)) = sts w \<and>
      collection_in_progress (state_of (begin_collection w)) = collection_in_progress w"
    by (simp add: begin_collection_def)
  have ec: "Heap_lock (end_collection w) = Heap_lock w"
    "\<not> collection_in_progress (end_collection w)"
    "jni_lock_count (end_collection w) = jni_lock_count w"
    "trace (end_collection w) = trace w"
    by (simp_all add: end_collection_def safepoint_synchronize_end_def STS_desynchronize_def)
  have c5: "collection_in_progress w \<longrightarrow>
      pin_object thread obj w = Blocked w \<and>
      (Heap_lock w = None \<longrightarrow>
         pin_object thread obj (end_collection w) =
           Returned () ((end_collection w)\<lparr>jni_lock_count := jni_lock_count w + 1,
              trace := trace w @ [Mutex_lock thread, Mutex_unlock thread]\<rparr>))"
    using lock_critical_let_in [of "end_collection w" thread] ec
    by (simp add: pin_object_def lock_critical_waits)
  have c6: "Heap_lock w = None \<and> \<not> collection_in_progress w \<and> jni_lock_count w = 0 \<longrightarrow>
      begin_collection (state_of (pin_object thread obj w)) =
        Blocked (state_of (pin_object thread obj w)) \<and>
      jni_lock_count (state_of (unpin_object thread obj (state_of (pin_object thread obj w)))) = 0 \<and>
      (\<exists>w'. begin_collection
               (state_of (unpin_object thread obj (state_of (pin_object thread obj w)))) =
               Returned () w' \<and> collection_in_progress w')"
  proof
    assume a: "Heap_lock w = None \<and> \<not> collection_in_progress w \<and> jni_lock_count w = 0"
    define w1 where "w1 = w\<lparr>jni_lock_count := jni_lock_count w + 1,
                  trace := trace w @ [Mutex_lock thread, Mutex_unlock thread]\<rparr>"
    define w2 where "w2 = w1\<lparr>jni_lock_count := jni_lock_count w1 - 1,
                  trace := trace w1 @ [Mutex_lock thread, Mutex_unlock thread]\<rparr>"
    have p: "state_of (pin_object thread obj w) = w1"
      using a c1 by (simp add: w1_def)
    have free1: "Heap_lock w1 = None" and one: "jni_lock_count w1 = 1"
      using a by (simp_all add: w1_def)
    have u: "state_of (unpin_object thread obj w1) = w2"
      using free1 by (simp add: unpin_object_def unlock_critical_let_in w2_def)
    have zero: "jni_lock_count w2 = 0"
      using one by (simp add: w2_def)
    have b1: "begin_collection w1 = Blocked w1"
      using one by (simp add: begin_collection_def)
    have b2: "begin_collection w2 =
                Returned () ((safepoint_synchronize_begin w2)\<lparr>collection_in_progress := True\<rparr>)"
      using zero by (simp add: begin_collection_def)
    show "begin_collection (state_of (pin_object thread obj w)) =
        Blocked (state_of (pin_object thread obj w)) \<and>
      jni_lock_count (state_of (unpin_object thread obj (state_of (pin_object thread obj w)))) = 0 \<and>
      (\<exists>w'. begin_collection
               (state_of (unpin_object thread obj (state_of (pin_object thread obj w)))) =
               Returned () w' \<and> collection_in_progress w')"
      unfolding p u using b1 b2 zero by simp
  qed
  show ?thesis using c1 c2 c3 c4 c5 c6 by blast
qed

theorem pin_blocks_collection_witness:
  "Heap_lock example_vm = None \<and>
   \<not> collection_in_progress example_vm \<and> jni_lock_count example_vm = 0 \<and>
   pin_object 1 5 example_vm =
     Returned () (example_vm\<lparr>jni_lock_count := 1, trace := [Mutex_lock 1, Mutex_unlock 1]\<rparr>) \<and>
   unpin_object 1 5 example_vm =
     Returned () (example_vm\<lparr>jni_lock_count := - 1, trace := [Mutex_lock 1, Mutex_unlock 1]\<rparr>) \<and>
   Heap_lock (example_vm\<lparr>Heap_lock := Some 2\<rparr>) \<noteq> None \<and>
   pin_object 1 5 (example_vm\<lparr>Heap_lock := Some 2\<rparr>) = Blocked (example_vm\<lparr>Heap_lock := Some 2\<rparr>) \<and>
   unpin_object 1 5 (example_vm\<lparr>Heap_lock := Some 2\<rparr>) =
     Blocked (example_vm\<lparr>Heap_lock := Some 2\<rparr>) \<and>
   0 < jni_lock_count (example_vm\<lparr>jni_lock_count := 1\<rparr>) \<and>
   begin_collection (example_vm\<lparr>jni_lock_count := 1\<rparr>) =
     Blocked (example_vm\<lparr>jni_lock_count := 1\<rparr>) \<and>
   begin_collection (state_of (pin_object 1 5 example_vm)) =
     Blocked (state_of (pin_object 1 5 example_vm)) \<and>
   (\<exists>w'. begin_collection (state_of (unpin_object 1 5 (state_of (pin_object 1 5 example_vm)))) =
            Returned () w' \<and> collection_in_progress w') \<and>
   collection_in_progress (example_vm\<lparr>collection_in_progress := True\<rparr>) \<and>
   pin_object 1 5 (example_vm\<lparr>collection_in_progress := True\<rparr>) =
     Blocked (example_vm\<lparr>collection_in_progress := True\<rparr>) \<and>
   pin_object 1 5 (end_collection (example_vm\<lparr>collection_in_progress := True\<rparr>)) =
     Returned () (example_vm\<lparr>jni_lock_count := 1, trace := [Mutex_lock 1, Mutex_unlock 1]\<rparr>)"
proof -
  have free: "Heap_lock example_vm = None"
    and idle: "\<not> collection_in_progress example_vm"
    and zero: "jni_lock_count example_vm = 0"
    and tr: "trace example_vm = []"
    by (simp_all add: example_vm_def)
  have held: "Heap_lock (example_vm\<lparr>Heap_lock := Some 2\<rparr>) \<noteq> None"
    by simp
  have pos: "0 < jni_lock_count (example_vm\<lparr>jni_lock_count := 1\<rparr>)"
    by simp
  have busy: "collection_in_progress (example_vm\<lparr>collection_in_progress := True\<rparr>)"
    by simp
  have free_busy: "Heap_lock (example_vm\<lparr>collection_in_progress := True\<rparr>) = None"
    by (simp add: free)
  have ended: "end_collection (example_vm\<lparr>collection_in_progress := True\<rparr>) = example_vm"
    by (simp add: end_collection_def safepoint_synchronize_end_def example_vm_def)
  have a: "pin_object 1 5 example_vm =
     Returned () (example_vm\<lparr>jni_lock_count := 1, trace := [Mutex_lock 1, Mutex_unlock 1]\<rparr>)"
    using pin_blocks_collection [of example_vm 1 5] free idle by (simp add: zero tr)
  have b: "unpin_object 1 5 example_vm =
     Returned () (example_vm\<lparr>jni_lock_count := - 1, trace := [Mutex_lock 1, Mutex_unlock 1]\<rparr>)"
    using pin_blocks_collection [of example_vm 1 5] free by (simp add: zero tr)
  have c: "pin_object 1 5 (example_vm\<lparr>Heap_lock := Some 2\<rparr>) =
             Blocked (example_vm\<lparr>Heap_lock := Some 2\<rparr>) \<and>
           unpin_object 1 5 (example_vm\<lparr>Heap_lock := Some 2\<rparr>) =
             Blocked (example_vm\<lparr>Heap_lock := Some 2\<rparr>)"
    using pin_blocks_collection [of "example_vm\<lparr>Heap_lock := Some 2\<rparr>" 1 5] held by blast
  have d: "begin_collection (example_vm\<lparr>jni_lock_count := 1\<rparr>) =
     Blocked (example_vm\<lparr>jni_lock_count := 1\<rparr>)"
    using pin_blocks_collection [of "example_vm\<lparr>jni_lock_count := 1\<rparr>" 1 5] pos by blast
  have e: "begin_collection (state_of (pin_object 1 5 example_vm)) =
     Blocked (state_of (pin_object 1 5 example_vm)) \<and>
   (\<exists>w'. begin_collection (state_of (unpin_object 1 5 (state_of (pin_object 1 5 example_vm)))) =
            Returned () w' \<and> collection_in_progress w')"
    using pin_blocks_collection [of example_vm 1 5] free idle zero by blast
  have f: "pin_object 1 5 (example_vm\<lparr>collection_in_progress := True\<rparr>) =
     Blocked (example_vm\<lparr>collection_in_progress := True\<rparr>)"
    using pin_blocks_collection [of "example_vm\<lparr>collection_in_progress := True\<rparr>" 1 5] busy
    by blast
  have g: "pin_object 1 5 (end_collection (example_vm\<lparr>collection_in_progress := True\<rparr>)) =
     Returned () (example_vm\<lparr>jni_lock_count := 1, trace := [Mutex_lock 1, Mutex_unlock 1]\<rparr>)"
    unfolding ended by (rule a)
  show ?thesis
    using free idle zero held pos busy a b c d e f g by blast
qed

text \<open>
  C9. \<open>pin_object\<close> and \<open>unpin_object\<close> do not look at their object argument: for every
  thread and state, pinning one object has the outcome of pinning any other, and so has
  unpinning. What a pin changes is state of the VM as a whole, none of it per object.
\<close>

theorem pin_object_ignores_object:
  "pin_object thread o1 w = pin_object thread o2 w \<and>
   unpin_object thread o1 w = unpin_object thread o2 w"
  by (simp add: pin_object_def unpin_object_def)

end
